theory Spec2Isabelle
  imports Main "HOL-Library.Word"
begin

unbundle bit_operations_syntax

section \<open>Error values\<close>

text \<open>
  Go's \<open>error\<close> is an interface value that may be \<open>nil\<close>: it is modelled as
  \<open>err option\<close>, \<open>None\<close> being \<open>nil\<close>. The constructors of \<open>err\<close> are the dynamic
  types the package meets:
  \<^item> \<open>Errno n\<close>: \<open>syscall.Errno\<close> (\<open>unix.ESRCH\<close>, \<open>unix.EAGAIN\<close>, ...), a number;
  \<^item> \<open>SyscallError name e\<close>: \<open>*os.SyscallError\<close>, as built by \<open>os.NewSyscallError\<close>;
  \<^item> \<open>PidfdError fd pid e\<close>: the package's own \<open>*Error{FD, PID, Err}\<close>;
  \<^item> \<open>Canceled\<close>, \<open>DeadlineExceeded\<close>: the two values a \<open>context.Context\<close> reports;
  \<^item> \<open>ErrNotExist\<close>, \<open>ErrPermission\<close>, \<open>ErrExist\<close>: the sentinels of package \<open>os\<close>;
  \<^item> \<open>ErrDeadlineExceeded\<close>: \<open>os.ErrDeadlineExceeded\<close>, what the poller reports when
    the read deadline of the descriptor has passed;
  \<^item> \<open>ErrorString s\<close>: an error made by \<open>errors.New\<close> or by \<open>fmt.Errorf\<close> without
    \<open>%w\<close>.
  Pointer identity of \<open>*Error\<close> and \<open>*os.SyscallError\<close> is replaced by equality of
  the fields; every comparison below is against a sentinel or an errno, where the two
  agree.
\<close>

datatype err =
    Errno nat
  | SyscallError string err
  | PidfdError (FD: int) (PID: int) (Err: "err option")
  | Canceled
  | DeadlineExceeded
  | ErrNotExist
  | ErrPermission
  | ErrExist
  | ErrDeadlineExceeded
  | ErrorString string

type_synonym error = "err option"

text \<open>The Linux errno numbers that the package and the standard library name.\<close>

abbreviation EPERM :: nat where "EPERM \<equiv> 1"
abbreviation ENOENT :: nat where "ENOENT \<equiv> 2"
abbreviation ESRCH :: nat where "ESRCH \<equiv> 3"
abbreviation ECHILD :: nat where "ECHILD \<equiv> 10"
abbreviation EAGAIN :: nat where "EAGAIN \<equiv> 11"
abbreviation EACCES :: nat where "EACCES \<equiv> 13"
abbreviation EEXIST :: nat where "EEXIST \<equiv> 17"
abbreviation EINVAL :: nat where "EINVAL \<equiv> 22"
abbreviation EMFILE :: nat where "EMFILE \<equiv> 24"
abbreviation ENOTEMPTY :: nat where "ENOTEMPTY \<equiv> 39"

text \<open>\<open>pidfd_linux.go\<close>: \<open>var esrch = unix.ESRCH\<close>, the "no such process" errno.\<close>

definition esrch :: err where
  "esrch = Errno ESRCH"

text \<open>
  The standard library's \<open>syscall.Errno.Is\<close> (Linux): an errno matches
  \<open>os.ErrPermission\<close> when it is \<open>EACCES\<close> or \<open>EPERM\<close>, \<open>os.ErrExist\<close> when it is
  \<open>EEXIST\<close> or \<open>ENOTEMPTY\<close>, \<open>os.ErrNotExist\<close> when it is \<open>ENOENT\<close>. \<open>ESRCH\<close> matches
  none of them, which is why the package's \<open>Error.Is\<close> exists.
\<close>

fun Errno_Is :: "nat \<Rightarrow> err \<Rightarrow> bool" where
  "Errno_Is e ErrPermission = (e = EACCES \<or> e = EPERM)"
| "Errno_Is e ErrExist = (e = EEXIST \<or> e = ENOTEMPTY)"
| "Errno_Is e ErrNotExist = (e = ENOENT)"
| "Errno_Is e _ = False"

text \<open>
  \<open>errors.Is\<close> of the standard library and the package's \<open>(*Error).Is\<close> call each
  other. \<open>errors_Is_loop e target\<close> is the loop of \<open>errors.Is\<close> for a non-nil error
  and a non-nil target: at each link of the chain it compares the link with the target,
  then asks the link's own \<open>Is\<close> method when its type has one (\<open>*Error\<close> and
  \<open>syscall.Errno\<close> do, \<open>*os.SyscallError\<close> does not), then unwraps (\<open>*Error\<close> and
  \<open>*os.SyscallError\<close> have \<open>Unwrap\<close>).

  \<open>Error_Is fd pid cause target\<close> is \<open>pidfd.go\<close>'s
  \<^verbatim>\<open>
  func (e *Error) Is(target error) bool {
      switch target {
      case os.ErrNotExist:
          return errors.Is(e.Err, esrch)
      default:
          return false
      }
  }
  \<close>
  for the receiver \<open>&Error{FD: fd, PID: pid, Err: cause}\<close>.
\<close>

fun errors_Is_loop :: "err \<Rightarrow> err \<Rightarrow> bool"
  and Error_Is :: "int \<Rightarrow> int \<Rightarrow> error \<Rightarrow> err \<Rightarrow> bool" where
  "errors_Is_loop (PidfdError fd pid cause) target =
     (PidfdError fd pid cause = target \<or> Error_Is fd pid cause target \<or>
      (case cause of None \<Rightarrow> False | Some c \<Rightarrow> errors_Is_loop c target))"
| "errors_Is_loop (SyscallError name c) target =
     (SyscallError name c = target \<or> errors_Is_loop c target)"
| "errors_Is_loop (Errno n) target = (Errno n = target \<or> Errno_Is n target)"
| "errors_Is_loop e target = (e = target)"
| "Error_Is fd pid cause target =
     (case target of
        ErrNotExist \<Rightarrow> (case cause of None \<Rightarrow> False | Some c \<Rightarrow> errors_Is_loop c esrch)
      | _ \<Rightarrow> False)"

text \<open>\<open>errors.Is(err, target)\<close>, with \<open>nil\<close> on either side.\<close>

definition errors_Is :: "error \<Rightarrow> error \<Rightarrow> bool" where
  "errors_Is e target =
     (case target of
        None \<Rightarrow> e = None
      | Some t \<Rightarrow> (case e of None \<Rightarrow> False | Some x \<Rightarrow> errors_Is_loop x t))"

text \<open>\<open>func (e *Error) Unwrap() error { return e.Err }\<close>, and \<open>errors.Unwrap\<close>.\<close>

fun Unwrap :: "err \<Rightarrow> error" where
  "Unwrap (PidfdError fd pid cause) = cause"
| "Unwrap (SyscallError name c) = Some c"
| "Unwrap e = None"

text \<open>
  \<open>errors.As(err, &perr)\<close> for \<open>perr *pidfd.Error\<close>: the first \<open>*Error\<close> of the
  chain, if there is one.
\<close>

fun errors_As_Error :: "err \<Rightarrow> (int \<times> int \<times> error) option" where
  "errors_As_Error (PidfdError fd pid cause) = Some (fd, pid, cause)"
| "errors_As_Error (SyscallError name c) = errors_As_Error c"
| "errors_As_Error e = None"

section \<open>The handle and its collaborators\<close>

text \<open>
  \<open>type File struct { pid int; c *conn; rc syscall.RawConn }\<close>: \<open>c\<close> and \<open>rc\<close> are two
  views of one descriptor, whose number is \<open>fd\<close>.
\<close>

record File =
  pid :: int
  fd :: int

text \<open>
  An \<open>os.Signal\<close> is an interface value: a \<open>unix.Signal\<close> (the same type as
  \<open>syscall.Signal\<close>) with its number, or a value of some other type that implements
  the interface, of which only the type's name (what \<open>%T\<close> prints) matters.
\<close>

datatype signal = UnixSignal int | OtherSignal string

text \<open>The read deadline of the descriptor: \<open>time.Time{}\<close> sets none, \<open>time.Unix(0, 1)\<close>
  sets one that has passed.\<close>

datatype deadline = NoDeadline | Expired

text \<open>
  The process behind the pidfd, as \<open>waitid(2)\<close> sees it: running, exited and not yet
  reaped, or one for which \<open>waitid\<close> fails with an errno (\<open>ECHILD\<close> for a process
  that is not a child or was reaped).
\<close>

datatype pstate = Running | Zombie | Unwaitable nat

text \<open>The calls on the collaborators, in the order they are made.\<close>

datatype call =
    Waitid_call int int "32 word"
  | SetReadDeadline_call deadline
  | PidfdSendSignal_call int int
  | Control_call

abbreviation P_PIDFD :: int where "P_PIDFD \<equiv> 3"
abbreviation WEXITED :: "32 word" where "WEXITED \<equiv> 0x4"
abbreviation WNOWAIT :: "32 word" where "WNOWAIT \<equiv> 0x1000000"
abbreviation PIDFD_NONBLOCK :: "32 word" where "PIDFD_NONBLOCK \<equiv> 0x800"

text \<open>
  \<open>unix.Waitid(idtype, id, &si, options, nil)\<close> on a non-blocking pidfd, after
  \<open>waitid(2)\<close> and \<open>pidfd_open(2)\<close>: \<open>EAGAIN\<close> while the process runs; success once
  it has exited, and then the exit status is consumed unless \<open>WNOWAIT\<close> is among the
  options; the errno of a process that cannot be waited for.
\<close>

definition Waitid :: "int \<Rightarrow> int \<Rightarrow> 32 word \<Rightarrow> pstate \<Rightarrow> error \<times> pstate" where
  "Waitid idtype ident options p =
     (case p of
        Running \<Rightarrow> (Some (Errno EAGAIN), Running)
      | Zombie \<Rightarrow> (None, if options AND WNOWAIT = 0 then Unwaitable ECHILD else Zombie)
      | Unwaitable e \<Rightarrow> (Some (Errno e), Unwaitable e))"

section \<open>Open\<close>

text \<open>
  The three collaborator calls of \<open>open\<close>, with what each reports: \<open>unix.PidfdOpen\<close>
  gives a descriptor or an error, \<open>socket.New\<close> and \<open>Conn.SyscallConn\<close> give an error
  or none.
\<close>

record opener =
  PidfdOpen :: "int \<Rightarrow> 32 word \<Rightarrow> err + int"
  socket_New :: "int \<Rightarrow> string \<Rightarrow> error"
  SyscallConn :: "int \<Rightarrow> error"

text \<open>
  \<open>pidfd_linux.go\<close>:
  \<^verbatim>\<open>
  func open(pid int) (*File, error) {
      fd, err := unix.PidfdOpen(pid, unix.PIDFD_NONBLOCK)
      if err != nil {
          // No FD to annotate the error yet.
          return nil, &Error{PID: pid, Err: err}
      }
      c, err := socket.New(fd, "pidfd")
      if err != nil { return nil, err }
      rc, err := c.SyscallConn()
      if err != nil { return nil, err }
      return &File{pid: pid, c: c, rc: rc}, nil
  }
  \<close>
\<close>

definition open' :: "opener \<Rightarrow> int \<Rightarrow> err + File" where
  "open' os p =
     (case PidfdOpen os p PIDFD_NONBLOCK of
        Inl e \<Rightarrow> Inl (PidfdError 0 p (Some e))
      | Inr d \<Rightarrow>
          (case socket_New os d ''pidfd'' of
             Some e \<Rightarrow> Inl e
           | None \<Rightarrow>
               (case SyscallConn os d of
                  Some e \<Rightarrow> Inl e
                | None \<Rightarrow> Inr \<lparr>pid = p, fd = d\<rparr>)))"

text \<open>\<open>pidfd.go\<close>: \<open>func Open(pid int) (*File, error) { return open(pid) }\<close>.\<close>

definition Open :: "opener \<Rightarrow> int \<Rightarrow> err + File" where
  "Open os p = open' os p"

section \<open>The state of a handle and of one Wait\<close>

text \<open>
  A \<open>context.Context\<close> is either live (\<open>None\<close>) or done with one of its two errors.
  \<open>ctx_Err\<close> is \<open>ctx.Err()\<close>. \<open>WithCancel\<close> derives a child: a child of a done parent
  is done at once, with the parent's error. \<open>cancel\<close> is the child's cancel function:
  it ends a live context with \<open>Canceled\<close> and leaves a done one as it is.
  \<open>parent_done\<close> is what the end of the parent does to a context.
\<close>

datatype ctxerr = CtxCanceled | CtxDeadlineExceeded

fun ctx_error :: "ctxerr \<Rightarrow> err" where
  "ctx_error CtxCanceled = Canceled"
| "ctx_error CtxDeadlineExceeded = DeadlineExceeded"

definition ctx_Err :: "ctxerr option \<Rightarrow> error" where
  "ctx_Err c = map_option ctx_error c"

definition WithCancel :: "ctxerr option \<Rightarrow> ctxerr option" where
  "WithCancel p = p"

definition cancel :: "ctxerr option \<Rightarrow> ctxerr option" where
  "cancel c = (case c of None \<Rightarrow> Some CtxCanceled | Some e \<Rightarrow> Some e)"

definition parent_done :: "ctxerr \<Rightarrow> ctxerr option \<Rightarrow> ctxerr option" where
  "parent_done e c = (case c of None \<Rightarrow> Some e | Some e' \<Rightarrow> Some e')"

text \<open>
  The places of the two threads of \<open>wait\<close>. The calling thread: before the goroutine
  is started (\<open>M_Init\<close>), entering \<open>f.rc.Read\<close> (\<open>M_Read\<close>), about to run the
  predicate (\<open>M_Pred\<close>), parked in the poller (\<open>M_Block\<close>), then \<open>cerr := ctx.Err()\<close>
  (\<open>M_CtxErr\<close>), \<open>cancel()\<close> (\<open>M_Cancel\<close>), \<open>wg.Wait()\<close> (\<open>M_Join\<close>),
  \<open>serr := f.c.SetReadDeadline(time.Time{})\<close> (\<open>M_Clear\<close>), the loop that picks the
  error (\<open>M_Select\<close>), returned (\<open>M_Done\<close>). The goroutine: not started (\<open>W_Idle\<close>),
  at \<open><-ctx.Done()\<close> (\<open>W_Wait\<close>), at \<open>f.c.SetReadDeadline(time.Unix(0, 1))\<close>
  (\<open>W_Set\<close>), finished, \<open>wg.Done()\<close> called (\<open>W_Done\<close>).
\<close>

datatype mpc =
  M_Init | M_Read | M_Pred | M_Block | M_CtxErr | M_Cancel | M_Join | M_Clear | M_Select | M_Done

datatype wpc = W_Idle | W_Wait | W_Set | W_Done

text \<open>
  The state: what the kernel and the runtime hold for the handle (the process, the read
  deadline of the descriptor, and what the collaborators report when they fail: the
  poller, \<open>SetReadDeadline\<close>, \<open>rc.Control\<close>, \<open>PidfdSendSignal\<close> for each signal
  number), the caller's context and the derived one, the places of the two threads,
  the four error variables of \<open>wait\<close>, its return value, and the calls made so far.
\<close>

record state =
  proc :: pstate
  deadline :: deadline
  rd_fault :: error
  dl_fault :: error
  ctl_fault :: error
  sig_result :: "int \<Rightarrow> error"
  parent :: "ctxerr option"
  ctx :: "ctxerr option"
  mpc :: mpc
  wpc :: wpc
  cerr :: error
  rerr :: error
  werr :: error
  serr :: error
  result :: error
  trace :: "call list"

section \<open>SendSignal\<close>

text \<open>
  \<open>pidfd_linux.go\<close>:
  \<^verbatim>\<open>
  func (f *File) wrap(err error) error {
      if err == nil { return nil }
      // Best effort.
      var fd int
      _ = f.rc.Control(func(cfd uintptr) { fd = int(cfd) })
      return &Error{PID: f.pid, FD: fd, Err: err}
  }
  \<close>
  When \<open>rc.Control\<close> fails its function is not run and \<open>fd\<close> stays zero.
\<close>

definition wrap :: "File \<Rightarrow> error \<Rightarrow> state \<Rightarrow> error \<times> state" where
  "wrap f e s =
     (case e of
        None \<Rightarrow> (None, s)
      | Some x \<Rightarrow>
          (Some (PidfdError (case ctl_fault s of None \<Rightarrow> fd f | Some _ \<Rightarrow> 0) (pid f) (Some x)),
           s\<lparr>trace := trace s @ [Control_call]\<rparr>))"

text \<open>
  \<^verbatim>\<open>
  func (f *File) sendSignal(signal os.Signal) error {
      ssig, ok := signal.(unix.Signal)
      if !ok {
          return fmt.Errorf("pidfd: invalid signal type for File.SendSignal: %T", signal)
      }
      return f.wrap(f.c.PidfdSendSignal(ssig, nil, 0))
  }
  \<close>
\<close>

definition sendSignal :: "File \<Rightarrow> signal \<Rightarrow> state \<Rightarrow> error \<times> state" where
  "sendSignal f sg s =
     (case sg of
        OtherSignal ty \<Rightarrow>
          (Some (ErrorString (''pidfd: invalid signal type for File.SendSignal: '' @ ty)), s)
      | UnixSignal ssig \<Rightarrow>
          wrap f (sig_result s ssig) (s\<lparr>trace := trace s @ [PidfdSendSignal_call (fd f) ssig]\<rparr>))"

text \<open>\<open>pidfd.go\<close>: \<open>func (f *File) SendSignal(signal os.Signal) error { return f.sendSignal(signal) }\<close>.\<close>

definition SendSignal :: "File \<Rightarrow> signal \<Rightarrow> state \<Rightarrow> error \<times> state" where
  "SendSignal f sg s = sendSignal f sg s"

section \<open>Wait\<close>

text \<open>
  \<open>f.c.SetReadDeadline(t)\<close>: the call is recorded; when the descriptor takes no
  deadline (\<open>dl_fault\<close>) the error is reported and the deadline stays as it was,
  otherwise the deadline is set.
\<close>

definition SetReadDeadline :: "deadline \<Rightarrow> state \<Rightarrow> error \<times> state" where
  "SetReadDeadline d s =
     (case dl_fault s of
        Some e \<Rightarrow> (Some e, s\<lparr>trace := trace s @ [SetReadDeadline_call d]\<rparr>)
      | None \<Rightarrow> (None, s\<lparr>deadline := d, trace := trace s @ [SetReadDeadline_call d]\<rparr>))"

text \<open>
  The function given to \<open>f.rc.Read\<close> in \<open>wait\<close>:
  \<^verbatim>\<open>
  func(fd uintptr) bool {
      var si unix.Siginfo
      err := unix.Waitid(unix.P_PIDFD, int(fd), &si, unix.WEXITED|unix.WNOWAIT, nil)
      switch err {
      case unix.EAGAIN:
          return false
      default:
          werr = err
          return true
      }
  }
  \<close>
  It returns whether the poller is to stop, and writes \<open>werr\<close> of the enclosing call.
\<close>

definition wait_pred :: "int \<Rightarrow> state \<Rightarrow> bool \<times> state" where
  "wait_pred d s =
     (case Waitid P_PIDFD d (WEXITED OR WNOWAIT) (proc s) of
        (e, p) \<Rightarrow>
          (if e = Some (Errno EAGAIN)
           then (False, s\<lparr>proc := p, trace := trace s @ [Waitid_call P_PIDFD d (WEXITED OR WNOWAIT)]\<rparr>)
           else (True, s\<lparr>proc := p, werr := e,
                          trace := trace s @ [Waitid_call P_PIDFD d (WEXITED OR WNOWAIT)]\<rparr>)))"

text \<open>
  The readiness poller \<open>f.rc.Read(fn)\<close> is a collaborator: it calls \<open>fn\<close> until \<open>fn\<close>
  returns true, parks between two calls until the descriptor is readable, and gives up
  with an error when the descriptor is unusable or its read deadline has passed.
  \<open>poll_check\<close> is the test it makes on entry and whenever it is about to park.
\<close>

definition poll_check :: "state \<Rightarrow> error" where
  "poll_check s =
     (case rd_fault s of
        Some e \<Rightarrow> Some e
      | None \<Rightarrow> (if deadline s = Expired then Some ErrDeadlineExceeded else None))"

text \<open>
  The loop at the end of \<open>wait\<close>:
  \<^verbatim>\<open>
  for _, err := range []error{cerr, rerr, werr, serr} {
      if err != nil { return err }
  }
  return nil
  \<close>
\<close>

fun first_error :: "error list \<Rightarrow> error" where
  "first_error [] = None"
| "first_error (e # es) = (case e of Some x \<Rightarrow> Some x | None \<Rightarrow> first_error es)"

text \<open>
  One step of the calling thread of
  \<^verbatim>\<open>
  func (f *File) wait(ctx context.Context) error {
      ctx, cancel := context.WithCancel(ctx)
      defer cancel()
      var wg sync.WaitGroup
      wg.Add(1)
      defer wg.Wait()
      go func() { ... }()
      var werr error
      rerr := f.rc.Read(func(fd uintptr) bool { ... })
      cerr := ctx.Err()
      cancel()
      wg.Wait()
      serr := f.c.SetReadDeadline(time.Time{})
      for _, err := range []error{cerr, rerr, werr, serr} { ... }
      return nil
  }
  \<close>
  A thread that cannot move (parked in the poller, or in \<open>wg.Wait()\<close> while the
  goroutine runs) leaves the state as it is. The two deferred calls run after the
  return value is fixed and find nothing to do: the context is canceled and the
  goroutine has finished.
\<close>

definition main_step :: "File \<Rightarrow> state \<Rightarrow> state" where
  "main_step f s =
     (case mpc s of
        M_Init \<Rightarrow> s\<lparr>ctx := WithCancel (parent s), wpc := W_Wait, mpc := M_Read\<rparr>
      | M_Read \<Rightarrow>
          (case poll_check s of
             Some e \<Rightarrow> s\<lparr>rerr := Some e, mpc := M_CtxErr\<rparr>
           | None \<Rightarrow> s\<lparr>mpc := M_Pred\<rparr>)
      | M_Pred \<Rightarrow>
          (case wait_pred (fd f) s of
             (True, s') \<Rightarrow> s'\<lparr>rerr := None, mpc := M_CtxErr\<rparr>
           | (False, s') \<Rightarrow> s'\<lparr>mpc := M_Block\<rparr>)
      | M_Block \<Rightarrow>
          (case poll_check s of
             Some e \<Rightarrow> s\<lparr>rerr := Some e, mpc := M_CtxErr\<rparr>
           | None \<Rightarrow> (if proc s = Zombie then s\<lparr>mpc := M_Pred\<rparr> else s))
      | M_CtxErr \<Rightarrow> s\<lparr>cerr := ctx_Err (ctx s), mpc := M_Cancel\<rparr>
      | M_Cancel \<Rightarrow> s\<lparr>ctx := cancel (ctx s), mpc := M_Join\<rparr>
      | M_Join \<Rightarrow> (if wpc s = W_Done then s\<lparr>mpc := M_Clear\<rparr> else s)
      | M_Clear \<Rightarrow>
          (case SetReadDeadline NoDeadline s of
             (e, s') \<Rightarrow> s'\<lparr>serr := e, mpc := M_Select\<rparr>)
      | M_Select \<Rightarrow> s\<lparr>result := first_error [cerr s, rerr s, werr s, serr s], mpc := M_Done\<rparr>
      | M_Done \<Rightarrow> s)"

text \<open>
  One step of the goroutine:
  \<^verbatim>\<open>
  go func() {
      defer wg.Done()
      // Immediately unblock pending reads.
      <-ctx.Done()
      _ = f.c.SetReadDeadline(time.Unix(0, 1))
  }()
  \<close>
\<close>

definition watcher_step :: "state \<Rightarrow> state" where
  "watcher_step s =
     (case wpc s of
        W_Idle \<Rightarrow> s
      | W_Wait \<Rightarrow> (if ctx s \<noteq> None then s\<lparr>wpc := W_Set\<rparr> else s)
      | W_Set \<Rightarrow> (case SetReadDeadline Expired s of (e, s') \<Rightarrow> s'\<lparr>wpc := W_Done\<rparr>)
      | W_Done \<Rightarrow> s)"

text \<open>
  What can happen next: a step of the calling thread, a step of the goroutine, the end
  of the caller's context (which ends the derived context too, once it exists), the
  exit of the process, or a wake-up of the parked poller (readiness, also spurious).
  A run is a list of these, in the order the scheduler and the world produce them.
\<close>

datatype event = Main | Watcher | ParentDone ctxerr | ProcExit | Wake

fun step :: "File \<Rightarrow> event \<Rightarrow> state \<Rightarrow> state" where
  "step f Main s = main_step f s"
| "step f Watcher s = watcher_step s"
| "step f (ParentDone e) s =
     s\<lparr>parent := parent_done e (parent s),
       ctx := (if mpc s = M_Init then ctx s
               else if parent s = None then parent_done e (ctx s) else ctx s)\<rparr>"
| "step f ProcExit s = (if proc s = Running then s\<lparr>proc := Zombie\<rparr> else s)"
| "step f Wake s = (if mpc s = M_Block then s\<lparr>mpc := M_Pred\<rparr> else s)"

fun run :: "File \<Rightarrow> event list \<Rightarrow> state \<Rightarrow> state" where
  "run f [] s = s"
| "run f (e # es) s = run f es (step f e s)"

text \<open>
  Entering \<open>wait\<close> with the caller's context: both threads at their start, the error
  variables \<open>nil\<close>, no call made yet. The process, the deadline of the descriptor and
  the collaborators stay as the handle has them.
\<close>

definition wait_enter :: "ctxerr option \<Rightarrow> state \<Rightarrow> state" where
  "wait_enter p s =
     s\<lparr>parent := p, ctx := None, mpc := M_Init, wpc := W_Idle,
       cerr := None, rerr := None, werr := None, serr := None, result := None, trace := []\<rparr>"

text \<open>
  \<open>wait f p es s\<close>: \<open>f.wait(ctx)\<close> on the handle state \<open>s\<close>, with a context in state
  \<open>p\<close>, under the run \<open>es\<close>. The call has returned when the calling thread is at
  \<open>M_Done\<close>; its return value is then \<open>result\<close>.
\<close>

definition wait :: "File \<Rightarrow> ctxerr option \<Rightarrow> event list \<Rightarrow> state \<Rightarrow> state" where
  "wait f p es s = run f es (wait_enter p s)"

text \<open>\<open>pidfd.go\<close>: \<open>func (f *File) Wait(ctx context.Context) error { return f.wait(ctx) }\<close>.\<close>

definition Wait :: "File \<Rightarrow> ctxerr option \<Rightarrow> event list \<Rightarrow> state \<Rightarrow> state" where
  "Wait f p es s = wait f p es s"

definition returned :: "state \<Rightarrow> bool" where
  "returned s = (mpc s = M_Done)"

text \<open>
  A handle as \<open>Open\<close> leaves it: no deadline on the descriptor, nothing running.
\<close>

definition handle :: "pstate \<Rightarrow> error \<Rightarrow> error \<Rightarrow> error \<Rightarrow> (int \<Rightarrow> error) \<Rightarrow> state" where
  "handle p rf df cf sr =
     \<lparr>proc = p, deadline = NoDeadline, rd_fault = rf, dl_fault = df, ctl_fault = cf,
      sig_result = sr, parent = None, ctx = None, mpc = M_Done, wpc = W_Done,
      cerr = None, rerr = None, werr = None, serr = None, result = None, trace = []\<rparr>"

text \<open>
  The life of a handle in serialized use: calls of \<open>Wait\<close>, each with its context and
  its run, calls of \<open>SendSignal\<close>, and the exit of the process between two calls.
  \<open>history\<close> runs them in order and collects what the \<open>Wait\<close> calls returned; a
  \<open>Wait\<close> that has not returned at the end of its run has no successor, so the history
  is \<open>None\<close>.
\<close>

datatype action = DoWait "ctxerr option" "event list" | DoSendSignal signal | ProcessExits

fun history :: "File \<Rightarrow> action list \<Rightarrow> state \<Rightarrow> (error list \<times> state) option" where
  "history f [] s = Some ([], s)"
| "history f (DoWait c es # as) s =
     (if returned (Wait f c es s)
      then map_option (\<lambda>(rs, t). (result (Wait f c es s) # rs, t))
             (history f as (Wait f c es s))
      else None)"
| "history f (DoSendSignal sg # as) s = history f as (snd (SendSignal f sg s))"
| "history f (ProcessExits # as) s = history f as (step f ProcExit s)"

text \<open>
  The earlier revision of \<open>pidfd.go\<close> that has \<open>readContext\<close> wraps the caller's
  function before it hands it to the poller:
  \<^verbatim>\<open>
  rerr := f.rc.Read(func(fd uintptr) bool {
      if ctx.Err() != nil {
          // Context canceled, don't invoke user function.
          return true
      }
      return fn(fd)
  })
  \<close>
  \<open>wait\<close> of \<open>pidfd_linux.go\<close>, which \<open>Wait\<close> calls now, has no such test.
\<close>

definition readContext_pred ::
  "ctxerr option \<Rightarrow> (int \<Rightarrow> 'a \<Rightarrow> bool \<times> 'a) \<Rightarrow> int \<Rightarrow> 'a \<Rightarrow> bool \<times> 'a" where
  "readContext_pred c fn d st = (if ctx_Err c \<noteq> None then (True, st) else fn d st)"

section \<open>Notions used in the statements\<close>

text \<open>The chain of an error: the error, what it wraps, and so on.\<close>

fun chain :: "err \<Rightarrow> err list" where
  "chain (PidfdError d p cause) =
     PidfdError d p cause # (case cause of None \<Rightarrow> [] | Some c \<Rightarrow> chain c)"
| "chain (SyscallError name c) = SyscallError name c # chain c"
| "chain e = [e]"

text \<open>The deadlines written to the descriptor, in order.\<close>

fun dl_writes :: "call list \<Rightarrow> deadline list" where
  "dl_writes [] = []"
| "dl_writes (SetReadDeadline_call d # cs) = d # dl_writes cs"
| "dl_writes (c # cs) = dl_writes cs"

text \<open>The exit checks made, in order.\<close>

fun exit_checks :: "call list \<Rightarrow> call list" where
  "exit_checks [] = []"
| "exit_checks (Waitid_call i d opts # cs) = Waitid_call i d opts # exit_checks cs"
| "exit_checks (c # cs) = exit_checks cs"

text \<open>The calling thread is past \<open>wg.Wait()\<close>; it is past the clearing of the deadline;
  it has read \<open>ctx.Err()\<close>.\<close>

definition after_join :: "state \<Rightarrow> bool" where
  "after_join s = (mpc s = M_Clear \<or> mpc s = M_Select \<or> mpc s = M_Done)"

definition after_clear :: "state \<Rightarrow> bool" where
  "after_clear s = (mpc s = M_Select \<or> mpc s = M_Done)"

definition after_read :: "state \<Rightarrow> bool" where
  "after_read s = (mpc s = M_CtxErr \<or> mpc s = M_Cancel \<or> mpc s = M_Join \<or> after_join s)"

definition after_ctxerr :: "state \<Rightarrow> bool" where
  "after_ctxerr s = (mpc s = M_Cancel \<or> mpc s = M_Join \<or> after_join s)"

section \<open>Invariants of a run\<close>

text \<open>
  What holds in every state of every run of \<open>wait\<close>: the goroutine exists once the
  calling thread has left its first place; it passes \<open><-ctx.Done()\<close> only when the
  derived context is done; the calling thread passes \<open>cancel()\<close> with the context done,
  and \<open>wg.Wait()\<close> with the goroutine finished; the deadlines written are the one of
  the finished goroutine followed by the one of the clearing; the value returned is the
  first of the four errors that is not \<open>nil\<close>.
\<close>

definition wait_inv :: "state \<Rightarrow> bool" where
  "wait_inv s =
     ((mpc s = M_Init) = (wpc s = W_Idle) \<and>
      (wpc s = W_Set \<or> wpc s = W_Done \<longrightarrow> ctx s \<noteq> None) \<and>
      (mpc s = M_Join \<or> after_join s \<longrightarrow> ctx s \<noteq> None) \<and>
      (after_join s \<longrightarrow> wpc s = W_Done) \<and>
      dl_writes (trace s) =
        (if wpc s = W_Done then [Expired] else []) @ (if after_clear s then [NoDeadline] else []) \<and>
      (mpc s = M_Done \<longrightarrow> result s = first_error [cerr s, rerr s, werr s, serr s]))"

text \<open>
  Where the four errors come from: \<open>cerr\<close> is \<open>nil\<close> until \<open>ctx.Err()\<close> is read and then
  \<open>nil\<close> or the error of the context, which is the error of the caller's context;
  \<open>rerr\<close> is \<open>nil\<close>, the poller's fault or its timeout; \<open>werr\<close> is \<open>nil\<close> or the errno,
  other than \<open>EAGAIN\<close>, of the exit check; \<open>serr\<close> is what the clearing reported.
\<close>

definition origin_inv :: "state \<Rightarrow> bool" where
  "origin_inv s =
     ((\<not> after_ctxerr s \<longrightarrow> cerr s = None) \<and>
      (cerr s \<noteq> None \<longrightarrow> cerr s = ctx_Err (ctx s) \<and> cerr s = ctx_Err (parent s)) \<and>
      (mpc s \<noteq> M_Init \<and> \<not> (mpc s = M_Join \<or> after_join s) \<longrightarrow> ctx s = parent s) \<and>
      (rerr s = None \<or> rerr s = rd_fault s \<or> rerr s = Some ErrDeadlineExceeded) \<and>
      (werr s = None \<or> (\<exists>n. n \<noteq> EAGAIN \<and> werr s = Some (Errno n))) \<and>
      (if after_clear s then serr s = dl_fault s else serr s = None))"

text \<open>A context that is done with \<open>x\<close> stays so, and \<open>cerr\<close> is its error once read.\<close>

definition done_inv :: "ctxerr \<Rightarrow> state \<Rightarrow> bool" where
  "done_inv x s =
     ((if mpc s = M_Init then parent s = Some x else ctx s = Some x) \<and>
      (after_ctxerr s \<longrightarrow> cerr s = Some (ctx_error x)))"

text \<open>
  The deadline of a descriptor that had none when \<open>wait\<close> was entered: it has passed only
  between the goroutine's write and the clearing.
\<close>

definition clean_inv :: "state \<Rightarrow> bool" where
  "clean_inv s =
     (deadline s = Expired \<longrightarrow> wpc s = W_Done \<and> dl_fault s = None \<and> \<not> after_clear s)"

text \<open>A poller without fault stops with an error only after the context is done.\<close>

definition quiet_inv :: "state \<Rightarrow> bool" where
  "quiet_inv s =
     (rd_fault s = None \<and>
      (rerr s \<noteq> None \<longrightarrow> after_read s \<and> ctx s \<noteq> None) \<and>
      (rerr s \<noteq> None \<and> after_ctxerr s \<longrightarrow> cerr s \<noteq> None))"

text \<open>While the process runs the predicate never stops the poller.\<close>

definition running_inv :: "state \<Rightarrow> bool" where
  "running_inv s = (proc s = Running \<and> (after_read s \<longrightarrow> rerr s \<noteq> None))"

text \<open>
  A healthy handle, a process that runs or has exited, and a context that does not end:
  nothing goes wrong.
\<close>

definition live_inv :: "state \<Rightarrow> bool" where
  "live_inv s =
     (parent s = None \<and> rd_fault s = None \<and> dl_fault s = None \<and>
      (proc s = Running \<or> proc s = Zombie) \<and>
      cerr s = None \<and> rerr s = None \<and> werr s = None \<and> serr s = None \<and>
      (\<not> (mpc s = M_Join \<or> after_join s) \<longrightarrow>
         ctx s = None \<and> deadline s = NoDeadline \<and> (wpc s = W_Idle \<or> wpc s = W_Wait)))"

text \<open>A handle for the examples: descriptor 7 of process 42, which runs; no collaborator
  fails.\<close>

definition file0 :: File where
  "file0 = \<lparr>pid = 42, fd = 7\<rparr>"

definition handle0 :: state where
  "handle0 = handle Running None None None (\<lambda>n. None)"


section \<open>Classification of errors\<close>

lemma Errno_Is_Errno: "\<not> Errno_Is n (Errno m)"
  by simp

lemma Is_loop_Errno: "errors_Is_loop e (Errno n) = (Errno n \<in> set (chain e))"
  by (induction e) (auto split: option.splits)

lemma Is_loop_ErrPermission:
  "errors_Is_loop e ErrPermission =
     (ErrPermission \<in> set (chain e) \<or> Errno EPERM \<in> set (chain e) \<or>
      Errno EACCES \<in> set (chain e))"
  by (induction e) (auto split: option.splits)

lemma Error_Is_iff:
  "Error_Is d p cause target = (target = ErrNotExist \<and> errors_Is cause (Some esrch))"
  by (cases target) (simp_all add: errors_Is_def split: option.splits)

lemma errors_Is_esrch:
  "errors_Is cause (Some esrch) = (\<exists>c. cause = Some c \<and> Errno ESRCH \<in> set (chain c))"
  by (cases cause) (simp_all add: errors_Is_def esrch_def Is_loop_Errno)

text \<open>
  C9. \<open>Error.Is\<close> answers true for exactly one target, \<open>os.ErrNotExist\<close>, and only when
  the wrapped cause is or wraps \<open>ESRCH\<close>; for every other target, \<open>os.ErrPermission\<close>
  among them, it answers false. A \<open>*Error\<close> matches \<open>os.ErrPermission\<close> exactly when
  the cause it wraps does: the match is found by unwrapping, not by \<open>Error.Is\<close>.
\<close>

theorem Error_Is_only_NotExist:
  "Error_Is d p cause target =
     (target = ErrNotExist \<and> (\<exists>c. cause = Some c \<and> Errno ESRCH \<in> set (chain c))) \<and>
   Error_Is d p cause ErrPermission = False \<and>
   errors_Is (Some (PidfdError d p cause)) (Some ErrPermission) =
     errors_Is cause (Some ErrPermission)"
proof -
  have a: "Error_Is d p cause target =
      (target = ErrNotExist \<and> (\<exists>c. cause = Some c \<and> Errno ESRCH \<in> set (chain c)))"
    by (simp only: Error_Is_iff errors_Is_esrch)
  have b: "Error_Is d p cause ErrPermission = False"
    by simp
  have c: "errors_Is (Some (PidfdError d p cause)) (Some ErrPermission) =
      errors_Is cause (Some ErrPermission)"
    by (cases cause) (simp_all add: errors_Is_def)
  from a b c show ?thesis by blast
qed

theorem Error_Is_only_NotExist_witness:
  "Error_Is 7 42 (Some (SyscallError ''pidfd_send_signal'' (Errno ESRCH))) ErrNotExist = True \<and>
   Error_Is 7 42 (Some (SyscallError ''pidfd_send_signal'' (Errno EPERM))) ErrNotExist = False \<and>
   Error_Is 7 42 (Some (SyscallError ''pidfd_send_signal'' (Errno EPERM))) ErrPermission = False \<and>
   errors_Is (Some (PidfdError 7 42 (Some (SyscallError ''pidfd_send_signal'' (Errno EPERM)))))
     (Some ErrPermission) = True"
  using Error_Is_only_NotExist [of 7 42 "Some (SyscallError ''pidfd_send_signal'' (Errno ESRCH))" ErrNotExist]
    Error_Is_only_NotExist [of 7 42 "Some (SyscallError ''pidfd_send_signal'' (Errno EPERM))" ErrNotExist]
  by (simp add: errors_Is_def)


section \<open>Open\<close>

lemma open_PidfdOpen_fails:
  "PidfdOpen os p PIDFD_NONBLOCK = Inl c \<Longrightarrow> Open os p = Inl (PidfdError 0 p (Some c))"
  by (simp add: Open_def open'_def)

lemma open_later_fails:
  assumes "PidfdOpen os p PIDFD_NONBLOCK = Inr d"
  shows "socket_New os d ''pidfd'' = Some e \<Longrightarrow> Open os p = Inl e"
    and "socket_New os d ''pidfd'' = None \<Longrightarrow> SyscallConn os d = Some e \<Longrightarrow> Open os p = Inl e"
    and "socket_New os d ''pidfd'' = None \<Longrightarrow> SyscallConn os d = None \<Longrightarrow>
         Open os p = Inr \<lparr>pid = p, fd = d\<rparr>"
  using assms by (simp_all add: Open_def open'_def)

lemma Is_loop_self: "errors_Is_loop e e"
  by (cases e) simp_all

text \<open>
  C6. When the process does not exist, that is when \<open>pidfd_open\<close> reports \<open>ESRCH\<close>,
  \<open>Open\<close> fails with a \<open>*Error\<close> that matches \<open>os.ErrNotExist\<close>, whose \<open>PID\<close> is the
  pid given and whose \<open>FD\<close> is zero. Every other failure of the acquisition is
  returned: a failure \<open>c\<close> of \<open>pidfd_open\<close> as the cause of such a \<open>*Error\<close>, so that
  \<open>errors.Is\<close> finds it and \<open>Unwrap\<close> gives it back; a failure of \<open>socket.New\<close> or of
  \<open>SyscallConn\<close> as it is.
\<close>

theorem Open_NotExist:
  "(PidfdOpen os p PIDFD_NONBLOCK = Inl (Errno ESRCH) \<longrightarrow>
      (\<exists>e. Open os p = Inl e \<and> errors_Is (Some e) (Some ErrNotExist) \<and>
           errors_As_Error e = Some (0, p, Some (Errno ESRCH)) \<and> PID e = p \<and> FD e = 0)) \<and>
   (PidfdOpen os p PIDFD_NONBLOCK = Inl c \<longrightarrow>
      (\<exists>e. Open os p = Inl e \<and> e = PidfdError 0 p (Some c) \<and> Unwrap e = Some c \<and>
           errors_Is (Some e) (Some c))) \<and>
   (PidfdOpen os p PIDFD_NONBLOCK = Inr d \<and> socket_New os d ''pidfd'' = Some c \<longrightarrow>
      Open os p = Inl c) \<and>
   (PidfdOpen os p PIDFD_NONBLOCK = Inr d \<and> socket_New os d ''pidfd'' = None \<and>
    SyscallConn os d = Some c \<longrightarrow> Open os p = Inl c)"
proof (intro conjI impI)
  assume h: "PidfdOpen os p PIDFD_NONBLOCK = Inl (Errno ESRCH)"
  have "Open os p = Inl (PidfdError 0 p (Some (Errno ESRCH)))"
    by (rule open_PidfdOpen_fails [OF h])
  moreover have "errors_Is (Some (PidfdError 0 p (Some (Errno ESRCH)))) (Some ErrNotExist)"
    by (simp add: errors_Is_def esrch_def)
  ultimately show "\<exists>e. Open os p = Inl e \<and> errors_Is (Some e) (Some ErrNotExist) \<and>
      errors_As_Error e = Some (0, p, Some (Errno ESRCH)) \<and> PID e = p \<and> FD e = 0"
    by simp
next
  assume h: "PidfdOpen os p PIDFD_NONBLOCK = Inl c"
  have "Open os p = Inl (PidfdError 0 p (Some c))"
    by (rule open_PidfdOpen_fails [OF h])
  moreover have "errors_Is (Some (PidfdError 0 p (Some c))) (Some c)"
    by (simp add: errors_Is_def Is_loop_self)
  ultimately show "\<exists>e. Open os p = Inl e \<and> e = PidfdError 0 p (Some c) \<and>
      Unwrap e = Some c \<and> errors_Is (Some e) (Some c)"
    by simp
next
  assume "PidfdOpen os p PIDFD_NONBLOCK = Inr d \<and> socket_New os d ''pidfd'' = Some c"
  then show "Open os p = Inl c"
    by (simp add: open_later_fails(1))
next
  assume "PidfdOpen os p PIDFD_NONBLOCK = Inr d \<and> socket_New os d ''pidfd'' = None \<and>
    SyscallConn os d = Some c"
  then show "Open os p = Inl c"
    by (simp add: open_later_fails(2))
qed

theorem Open_NotExist_witness:
  "PidfdOpen \<lparr>PidfdOpen = \<lambda>p fl. Inl (Errno ESRCH), socket_New = \<lambda>d n. None,
      SyscallConn = \<lambda>d. None\<rparr> 12345678 PIDFD_NONBLOCK = Inl (Errno ESRCH) \<and>
   Open \<lparr>PidfdOpen = \<lambda>p fl. Inl (Errno ESRCH), socket_New = \<lambda>d n. None,
      SyscallConn = \<lambda>d. None\<rparr> 12345678 = Inl (PidfdError 0 12345678 (Some (Errno ESRCH))) \<and>
   errors_Is (Some (PidfdError 0 12345678 (Some (Errno ESRCH)))) (Some ErrNotExist)"
  using Open_NotExist [of "\<lparr>PidfdOpen = \<lambda>p fl. Inl (Errno ESRCH), socket_New = \<lambda>d n. None,
      SyscallConn = \<lambda>d. None\<rparr>" 12345678 "Errno ESRCH" 0]
  by (simp add: errors_Is_def esrch_def)

section \<open>SendSignal\<close>

lemma wrap_Some:
  "wrap f (Some c) s =
     (Some (PidfdError (case ctl_fault s of None \<Rightarrow> fd f | Some x \<Rightarrow> 0) (pid f) (Some c)),
      s\<lparr>trace := trace s @ [Control_call]\<rparr>)"
  by (simp add: wrap_def)

lemma SendSignal_unix:
  "SendSignal f (UnixSignal n) s =
     wrap f (sig_result s n) (s\<lparr>trace := trace s @ [PidfdSendSignal_call (fd f) n]\<rparr>)"
  by (simp add: SendSignal_def sendSignal_def)

lemma Is_loop_chain: "t \<in> set (chain e) \<Longrightarrow> errors_Is_loop e t"
  by (induction e) (auto split: option.splits)

lemma Is_loop_wraps:
  "t \<in> set (chain c) \<Longrightarrow> errors_Is_loop (PidfdError d p (Some c)) t"
  by (simp add: Is_loop_chain)

text \<open>
  C7. A signal that is not a \<open>unix.Signal\<close> makes \<open>SendSignal\<close> fail at once with the
  error "invalid signal type", which is no \<open>*Error\<close> and matches neither
  \<open>os.ErrNotExist\<close> nor \<open>os.ErrPermission\<close>; no collaborator is called and the state is
  as before. A \<open>unix.Signal\<close> is handed to \<open>PidfdSendSignal\<close>, once, with the handle's
  descriptor; success is returned as success, and a failure \<open>c\<close> as a \<open>*Error\<close> with
  the handle's pid and the cause \<open>c\<close>.
\<close>

theorem SendSignal_invalid_signal:
  "SendSignal f (OtherSignal ty) s =
     (Some (ErrorString (''pidfd: invalid signal type for File.SendSignal: '' @ ty)), s) \<and>
   errors_As_Error (ErrorString (''pidfd: invalid signal type for File.SendSignal: '' @ ty)) = None \<and>
   errors_Is (fst (SendSignal f (OtherSignal ty) s)) (Some ErrNotExist) = False \<and>
   errors_Is (fst (SendSignal f (OtherSignal ty) s)) (Some ErrPermission) = False \<and>
   trace (snd (SendSignal f (OtherSignal ty) s)) = trace s \<and>
   (case sig_result s n of
      None \<Rightarrow> SendSignal f (UnixSignal n) s =
        (None, s\<lparr>trace := trace s @ [PidfdSendSignal_call (fd f) n]\<rparr>)
    | Some c \<Rightarrow> fst (SendSignal f (UnixSignal n) s) =
        Some (PidfdError (case ctl_fault s of None \<Rightarrow> fd f | Some x \<Rightarrow> 0) (pid f) (Some c)) \<and>
        trace (snd (SendSignal f (UnixSignal n) s)) =
          trace s @ [PidfdSendSignal_call (fd f) n, Control_call])"
proof -
  have a: "SendSignal f (OtherSignal ty) s =
      (Some (ErrorString (''pidfd: invalid signal type for File.SendSignal: '' @ ty)), s)"
    by (simp add: SendSignal_def sendSignal_def)
  have b: "case sig_result s n of
      None \<Rightarrow> SendSignal f (UnixSignal n) s =
        (None, s\<lparr>trace := trace s @ [PidfdSendSignal_call (fd f) n]\<rparr>)
    | Some c \<Rightarrow> fst (SendSignal f (UnixSignal n) s) =
        Some (PidfdError (case ctl_fault s of None \<Rightarrow> fd f | Some x \<Rightarrow> 0) (pid f) (Some c)) \<and>
        trace (snd (SendSignal f (UnixSignal n) s)) =
          trace s @ [PidfdSendSignal_call (fd f) n, Control_call]"
    by (cases "sig_result s n") (simp_all add: SendSignal_unix wrap_def)
  from a b show ?thesis
    by (simp add: errors_Is_def)
qed

theorem SendSignal_invalid_signal_witness:
  "SendSignal file0 (OtherSignal ''pidfd_test.fakeSignal'') handle0 =
     (Some (ErrorString ''pidfd: invalid signal type for File.SendSignal: pidfd_test.fakeSignal''),
      handle0) \<and>
   SendSignal file0 (UnixSignal 2) handle0 =
     (None, handle0\<lparr>trace := [PidfdSendSignal_call 7 2]\<rparr>)"
  using SendSignal_invalid_signal [of file0 "''pidfd_test.fakeSignal''" handle0 2]
  by (simp add: handle0_def handle_def file0_def)

text \<open>
  C8. When the delivery fails with a cause that is or wraps \<open>EPERM\<close>, \<open>SendSignal\<close>
  returns a \<open>*Error\<close> that wraps this cause, with the handle's pid and, as descriptor,
  the handle's own or zero when \<open>rc.Control\<close> could not tell it. The error matches
  \<open>os.ErrPermission\<close> and the errno \<open>EPERM\<close> under \<open>errors.Is\<close>.
\<close>

theorem SendSignal_PermissionDenied:
  assumes "sig_result s n = Some c" and "Errno EPERM \<in> set (chain c)"
  shows "\<exists>d. fst (SendSignal f (UnixSignal n) s) = Some (PidfdError d (pid f) (Some c)) \<and>
           (d = fd f \<or> d = 0) \<and> (ctl_fault s = None \<longrightarrow> d = fd f) \<and>
           Unwrap (PidfdError d (pid f) (Some c)) = Some c \<and>
           errors_Is (fst (SendSignal f (UnixSignal n) s)) (Some ErrPermission) \<and>
           errors_Is (fst (SendSignal f (UnixSignal n) s)) (Some (Errno EPERM)) \<and>
           errors_As_Error (PidfdError d (pid f) (Some c)) = Some (d, pid f, Some c)"
proof -
  let ?d = "case ctl_fault s of None \<Rightarrow> fd f | Some x \<Rightarrow> 0"
  have r: "fst (SendSignal f (UnixSignal n) s) = Some (PidfdError ?d (pid f) (Some c))"
    using assms(1) by (simp add: SendSignal_unix wrap_def)
  have d: "(?d = fd f \<or> ?d = 0) \<and> (ctl_fault s = None \<longrightarrow> ?d = fd f)"
    by (cases "ctl_fault s") simp_all
  have "errors_Is_loop c ErrPermission"
    using assms(2) by (simp add: Is_loop_ErrPermission)
  then have p: "errors_Is (Some (PidfdError ?d (pid f) (Some c))) (Some ErrPermission)"
    by (simp add: errors_Is_def)
  have e: "errors_Is (Some (PidfdError ?d (pid f) (Some c))) (Some (Errno EPERM))"
    using assms(2) by (simp add: errors_Is_def Is_loop_wraps del: errors_Is_loop.simps)
  from r d p e show ?thesis by auto
qed

theorem SendSignal_PermissionDenied_witness:
  "fst (SendSignal \<lparr>pid = 1, fd = 9\<rparr> (UnixSignal 12)
     (handle Running None None None
        (\<lambda>n. Some (SyscallError ''pidfd_send_signal'' (Errno EPERM))))) =
     Some (PidfdError 9 1 (Some (SyscallError ''pidfd_send_signal'' (Errno EPERM)))) \<and>
   errors_Is (Some (PidfdError 9 1 (Some (SyscallError ''pidfd_send_signal'' (Errno EPERM)))))
     (Some ErrPermission)"
  using SendSignal_PermissionDenied [of
      "handle Running None None None (\<lambda>n. Some (SyscallError ''pidfd_send_signal'' (Errno EPERM)))"
      12 "SyscallError ''pidfd_send_signal'' (Errno EPERM)" "\<lparr>pid = 1, fd = 9\<rparr>"]
  by (simp add: handle_def errors_Is_def)


section \<open>The steps of Wait\<close>

lemmas step_defs = main_step_def watcher_step_def poll_check_def wait_pred_def Waitid_def
  SetReadDeadline_def WithCancel_def cancel_def parent_done_def

lemma cancel_simps:
  "cancel c \<noteq> None" "cancel (Some x) = Some x" "cancel None = Some CtxCanceled"
  by (simp_all add: cancel_def split: option.split)

lemma ctx_Err_simps:
  "(ctx_Err c = None) = (c = None)" "ctx_Err None = None" "ctx_Err (Some x) = Some (ctx_error x)"
  by (simp_all add: ctx_Err_def)

lemma dl_writes_append: "dl_writes (xs @ ys) = dl_writes xs @ dl_writes ys"
  by (induction xs rule: dl_writes.induct) simp_all

lemma exit_checks_append: "exit_checks (xs @ ys) = exit_checks xs @ exit_checks ys"
  by (induction xs rule: exit_checks.induct) simp_all

text \<open>
  Every step is one of these: the event, the guard under which it applies, and the new
  state as an update of the old one.
\<close>

lemma step_cases [case_names Init ReadFault ReadTimeout ReadOk PredRunning PredZombie
    PredAgain PredError BlockFault BlockTimeout BlockReady BlockPark CtxErr Cancel JoinOk
    JoinWait ClearOk ClearFail Select Done WIdle WLive WCtxDone WSetOk WSetFail WDone
    ParentAgain ParentEndsInit ParentEndsLive ParentEndsDone ExitRunning ExitOther
    WakeBlock WakeOther]:
  obtains
    (Init) "e = Main" "mpc s = M_Init"
      "step f e s = s\<lparr>ctx := parent s, wpc := W_Wait, mpc := M_Read\<rparr>"
  | (ReadFault) x where "e = Main" "mpc s = M_Read" "rd_fault s = Some x"
      "step f e s = s\<lparr>rerr := Some x, mpc := M_CtxErr\<rparr>"
  | (ReadTimeout) "e = Main" "mpc s = M_Read" "rd_fault s = None" "deadline s = Expired"
      "step f e s = s\<lparr>rerr := Some ErrDeadlineExceeded, mpc := M_CtxErr\<rparr>"
  | (ReadOk) "e = Main" "mpc s = M_Read" "rd_fault s = None" "deadline s = NoDeadline"
      "step f e s = s\<lparr>mpc := M_Pred\<rparr>"
  | (PredRunning) "e = Main" "mpc s = M_Pred" "proc s = Running"
      "step f e s = s\<lparr>trace := trace s @ [Waitid_call P_PIDFD (fd f) (WEXITED OR WNOWAIT)],
                          mpc := M_Block\<rparr>"
  | (PredZombie) "e = Main" "mpc s = M_Pred" "proc s = Zombie"
      "step f e s = s\<lparr>werr := None,
                          trace := trace s @ [Waitid_call P_PIDFD (fd f) (WEXITED OR WNOWAIT)],
                          rerr := None, mpc := M_CtxErr\<rparr>"
  | (PredAgain) "e = Main" "mpc s = M_Pred" "proc s = Unwaitable EAGAIN"
      "step f e s = s\<lparr>trace := trace s @ [Waitid_call P_PIDFD (fd f) (WEXITED OR WNOWAIT)],
                          mpc := M_Block\<rparr>"
  | (PredError) n where "e = Main" "mpc s = M_Pred" "proc s = Unwaitable n" "n \<noteq> EAGAIN"
      "step f e s = s\<lparr>werr := Some (Errno n),
                          trace := trace s @ [Waitid_call P_PIDFD (fd f) (WEXITED OR WNOWAIT)],
                          rerr := None, mpc := M_CtxErr\<rparr>"
  | (BlockFault) x where "e = Main" "mpc s = M_Block" "rd_fault s = Some x"
      "step f e s = s\<lparr>rerr := Some x, mpc := M_CtxErr\<rparr>"
  | (BlockTimeout) "e = Main" "mpc s = M_Block" "rd_fault s = None" "deadline s = Expired"
      "step f e s = s\<lparr>rerr := Some ErrDeadlineExceeded, mpc := M_CtxErr\<rparr>"
  | (BlockReady) "e = Main" "mpc s = M_Block" "rd_fault s = None" "deadline s = NoDeadline"
      "proc s = Zombie" "step f e s = s\<lparr>mpc := M_Pred\<rparr>"
  | (BlockPark) "e = Main" "mpc s = M_Block" "rd_fault s = None" "deadline s = NoDeadline"
      "proc s \<noteq> Zombie" "step f e s = s"
  | (CtxErr) "e = Main" "mpc s = M_CtxErr"
      "step f e s = s\<lparr>cerr := ctx_Err (ctx s), mpc := M_Cancel\<rparr>"
  | (Cancel) "e = Main" "mpc s = M_Cancel"
      "step f e s = s\<lparr>ctx := cancel (ctx s), mpc := M_Join\<rparr>"
  | (JoinOk) "e = Main" "mpc s = M_Join" "wpc s = W_Done" "step f e s = s\<lparr>mpc := M_Clear\<rparr>"
  | (JoinWait) "e = Main" "mpc s = M_Join" "wpc s \<noteq> W_Done" "step f e s = s"
  | (ClearOk) "e = Main" "mpc s = M_Clear" "dl_fault s = None"
      "step f e s = s\<lparr>deadline := NoDeadline,
                          trace := trace s @ [SetReadDeadline_call NoDeadline],
                          serr := None, mpc := M_Select\<rparr>"
  | (ClearFail) x where "e = Main" "mpc s = M_Clear" "dl_fault s = Some x"
      "step f e s = s\<lparr>trace := trace s @ [SetReadDeadline_call NoDeadline],
                          serr := Some x, mpc := M_Select\<rparr>"
  | (Select) "e = Main" "mpc s = M_Select"
      "step f e s = s\<lparr>result := first_error [cerr s, rerr s, werr s, serr s], mpc := M_Done\<rparr>"
  | (Done) "e = Main" "mpc s = M_Done" "step f e s = s"
  | (WIdle) "e = Watcher" "wpc s = W_Idle" "step f e s = s"
  | (WLive) "e = Watcher" "wpc s = W_Wait" "ctx s = None" "step f e s = s"
  | (WCtxDone) "e = Watcher" "wpc s = W_Wait" "ctx s \<noteq> None" "step f e s = s\<lparr>wpc := W_Set\<rparr>"
  | (WSetOk) "e = Watcher" "wpc s = W_Set" "dl_fault s = None"
      "step f e s = s\<lparr>deadline := Expired,
                          trace := trace s @ [SetReadDeadline_call Expired], wpc := W_Done\<rparr>"
  | (WSetFail) x where "e = Watcher" "wpc s = W_Set" "dl_fault s = Some x"
      "step f e s = s\<lparr>trace := trace s @ [SetReadDeadline_call Expired], wpc := W_Done\<rparr>"
  | (WDone) "e = Watcher" "wpc s = W_Done" "step f e s = s"
  | (ParentAgain) x where "e = ParentDone x" "parent s \<noteq> None" "step f e s = s"
  | (ParentEndsInit) x where "e = ParentDone x" "parent s = None" "mpc s = M_Init"
      "step f e s = s\<lparr>parent := Some x\<rparr>"
  | (ParentEndsLive) x where "e = ParentDone x" "parent s = None" "mpc s \<noteq> M_Init"
      "ctx s = None" "step f e s = s\<lparr>parent := Some x, ctx := Some x\<rparr>"
  | (ParentEndsDone) x where "e = ParentDone x" "parent s = None" "mpc s \<noteq> M_Init"
      "ctx s \<noteq> None" "step f e s = s\<lparr>parent := Some x\<rparr>"
  | (ExitRunning) "e = ProcExit" "proc s = Running" "step f e s = s\<lparr>proc := Zombie\<rparr>"
  | (ExitOther) "e = ProcExit" "proc s \<noteq> Running" "step f e s = s"
  | (WakeBlock) "e = Wake" "mpc s = M_Block" "step f e s = s\<lparr>mpc := M_Pred\<rparr>"
  | (WakeOther) "e = Wake" "mpc s \<noteq> M_Block" "step f e s = s"
proof (cases e)
  case Main
  show ?thesis
  proof (cases "mpc s")
    case M_Init
    with Main show ?thesis by (intro Init) (simp_all add: step_defs)
  next
    case M_Read
    show ?thesis
    proof (cases "rd_fault s")
      case None
      with Main M_Read show ?thesis
        by (cases "deadline s") (auto intro: ReadTimeout ReadOk simp: step_defs)
    next
      case (Some x)
      with Main M_Read show ?thesis by (intro ReadFault) (simp_all add: step_defs)
    qed
  next
    case M_Pred
    show ?thesis
    proof (cases "proc s")
      case Running
      with Main M_Pred show ?thesis by (intro PredRunning) (simp_all add: step_defs)
    next
      case Zombie
      with Main M_Pred show ?thesis by (intro PredZombie) (simp_all add: step_defs)
    next
      case (Unwaitable n)
      with Main M_Pred show ?thesis
        by (cases "n = EAGAIN") (auto intro: PredAgain PredError simp: step_defs)
    qed
  next
    case M_Block
    show ?thesis
    proof (cases "rd_fault s")
      case None
      with Main M_Block show ?thesis
        by (cases "deadline s"; cases "proc s = Zombie")
           (auto intro: BlockTimeout BlockReady BlockPark simp: step_defs)
    next
      case (Some x)
      with Main M_Block show ?thesis by (intro BlockFault) (simp_all add: step_defs)
    qed
  next
    case M_CtxErr
    with Main show ?thesis by (intro CtxErr) (simp_all add: step_defs)
  next
    case M_Cancel
    with Main show ?thesis by (intro Cancel) (simp_all add: step_defs)
  next
    case M_Join
    with Main show ?thesis
      by (cases "wpc s = W_Done") (auto intro: JoinOk JoinWait simp: step_defs)
  next
    case M_Clear
    with Main show ?thesis
      by (cases "dl_fault s") (auto intro: ClearOk ClearFail simp: step_defs)
  next
    case M_Select
    with Main show ?thesis by (intro Select) (simp_all add: step_defs)
  next
    case M_Done
    with Main show ?thesis by (intro Done) (simp_all add: step_defs)
  qed
next
  case Watcher
  show ?thesis
  proof (cases "wpc s")
    case W_Idle
    with Watcher show ?thesis by (intro WIdle) (simp_all add: step_defs)
  next
    case W_Wait
    with Watcher show ?thesis
      by (cases "ctx s = None") (auto intro: WLive WCtxDone simp: step_defs)
  next
    case W_Set
    with Watcher show ?thesis
      by (cases "dl_fault s") (auto intro: WSetOk WSetFail simp: step_defs)
  next
    case W_Done
    with Watcher show ?thesis by (intro WDone) (simp_all add: step_defs)
  qed
next
  case (ParentDone x)
  show ?thesis
  proof (cases "parent s")
    case None
    with ParentDone show ?thesis
      by (cases "mpc s = M_Init"; cases "ctx s")
         (auto intro: ParentEndsInit ParentEndsLive ParentEndsDone simp: step_defs)
  next
    case (Some y)
    with ParentDone show ?thesis by (intro ParentAgain) (simp_all add: step_defs)
  qed
next
  case ProcExit
  then show ?thesis
    by (cases "proc s = Running") (auto intro: ExitRunning ExitOther)
next
  case Wake
  then show ?thesis
    by (cases "mpc s = M_Block") (auto intro: WakeBlock WakeOther)
qed

lemma run_append: "run f (es @ es') s = run f es' (run f es s)"
  by (induction es arbitrary: s) simp_all

end
